theory Spec2Isabelle
  imports Complex_Main "HOL-Library.Sublist" "HOL-Library.Log_Nat"
begin

section \<open>JavaScript values used by the front end\<close>

text \<open>
  A JavaScript string is modelled as a \<open>string\<close>: the code units below 256, one
  \<open>char\<close> each. Two facts of the language matter to the handlers below: the empty
  string is falsy, and \<open>trim\<close> strips white space and line terminators at both ends
  (of these, the code units below 256 are 9 to 13, 32 and 160).
\<close>

definition truthy :: "string \<Rightarrow> bool" where
  "truthy s = (s \<noteq> [])"

fun truthy_opt :: "string option \<Rightarrow> bool" where
  "truthy_opt None = False"
| "truthy_opt (Some s) = truthy s"

definition is_white_space :: "char \<Rightarrow> bool" where
  "is_white_space c =
     (c = CHR 0x09 \<or> c = CHR 0x0A \<or> c = CHR 0x0B \<or> c = CHR 0x0C \<or> c = CHR 0x0D
      \<or> c = CHR 0x20 \<or> c = CHR 0xA0)"

definition trim :: "string \<Rightarrow> string" where
  "trim s = rev (dropWhile is_white_space (rev (dropWhile is_white_space s)))"

text \<open>
  A JavaScript number is an IEEE 754 double, a rational number; the result of an
  arithmetic operation is the double nearest to the exact result, the one with the even
  significand on a tie. \<open>to_double\<close> is that rounding for a result in the normal range
  (a magnitude from \<open>2 powi - 1022\<close> up to the largest double), where a double has a
  significand of 53 bits: in the binade \<open>2 powi e \<le> \<bar>x\<bar> < 2 powi (e + 1)\<close> the doubles
  are the multiples of \<open>2 powi (e - 52)\<close>.
\<close>

definition binade :: "rat \<Rightarrow> int" where
  \<comment> \<open>the \<open>e\<close> with \<open>2 powi e \<le> \<bar>x\<bar> < 2 powi (e + 1)\<close>, for \<open>x \<noteq> 0\<close>, from the bit
      lengths of the numerator and the denominator\<close>
  "binade x =
     (let (p, q) = quotient_of \<bar>x\<bar>; d = bitlen p - bitlen q
      in if 2 powi d \<le> \<bar>x\<bar> then d else d - 1)"

definition round_half_even :: "rat \<Rightarrow> int" where
  "round_half_even x =
     (let f = \<lfloor>x\<rfloor>; r = x - of_int f
      in if r < 1 / 2 then f
         else if 1 / 2 < r then f + 1
         else if even f then f else f + 1)"

definition to_double :: "rat \<Rightarrow> rat" where
  "to_double x =
     (if x = 0 then 0
      else let ulp = 2 powi (binade x - 52)
           in of_int (round_half_even (x / ulp)) * ulp)"

text \<open>
  A call through the Tauri bridge (\<open>invoke\<close>) returns a promise: it resolves with the
  command's value or rejects with a thrown value. What a \<open>catch\<close> clause can tell apart
  is whether the thrown value is an \<open>Error\<close> object (with its message) or anything else.
\<close>

datatype thrown = ErrorObject string | OtherValue

datatype 'a promise = Resolved 'a | Rejected thrown


section \<open>The data model (\<open>lib/types.ts\<close>)\<close>

record KeyPayload =
  uid :: string
  name :: string
  created :: rat

record ValidationResult =
  valid :: bool
  user_name :: "string option"
  error :: "string option"

datatype SyncDirection = LocalToCloud | CloudToLocal

datatype SyncStatus = Idle | Scanning | Syncing | Paused | Completed | Error string

record SyncProgress =
  status :: SyncStatus
  direction :: "SyncDirection option"
  total_files :: nat
  completed_files :: nat
  total_bytes :: nat
  transferred_bytes :: nat
  current_file :: "string option"
  bytes_per_second :: rat
  eta_seconds :: "rat option"

record CloudFolder =
  folder_name :: string
  path :: string
  total_size :: nat
  file_count :: nat

record CredentialsStatus =
  cred_valid :: bool
  days_remaining :: int
  expiry_date :: string
  warning :: "string option"

datatype AppScreen = Loading | KeyEntryScreen | Main

record AppState =
  screen :: AppScreen
  user :: "KeyPayload option"
  progress :: "SyncProgress option"
  cloudFolders :: "CloudFolder list"
  selectedSourceFolders :: "string list"
  selectedTargetFolder :: "string option"
  selectedCloudFolder :: "string option"
  app_error :: "string option"


section \<open>Display text of a status (\<open>lib/tauri.ts\<close>)\<close>

text \<open>
  At run time a \<open>SyncStatus\<close> is what the JSON of the backend decodes to: a string for
  a plain tag, an object with the one field \<open>Error\<close> for the error-carrying variant.
  \<open>getStatusText\<close> is written over such values, with a \<open>default\<close> branch for an
  unknown string and a last \<open>return\<close> for an object without the field.
\<close>

datatype js_value = JString string | JObject "(string \<times> string) list"

fun status_value :: "SyncStatus \<Rightarrow> js_value" where
  "status_value Idle = JString ''Idle''"
| "status_value Scanning = JString ''Scanning''"
| "status_value Syncing = JString ''Syncing''"
| "status_value Paused = JString ''Paused''"
| "status_value Completed = JString ''Completed''"
| "status_value (Error m) = JObject [(''Error'', m)]"

fun getStatusText :: "js_value \<Rightarrow> string" where
  "getStatusText (JString s) =
     (if s = ''Idle'' then ''Ready''
      else if s = ''Scanning'' then ''Scanning files...''
      else if s = ''Syncing'' then ''Syncing...''
      else if s = ''Paused'' then ''Paused''
      else if s = ''Completed'' then ''Completed''
      else s)"
| "getStatusText (JObject props) =
     (case map_of props ''Error'' of
        Some m \<Rightarrow> ''Error: '' @ m
      | None \<Rightarrow> ''Unknown'')"


section \<open>The application store (\<open>lib/store.ts\<close>)\<close>

definition initialState :: AppState where
  "initialState =
     \<lparr> screen = Loading, user = None, progress = None, cloudFolders = [],
       selectedSourceFolders = [], selectedTargetFolder = None,
       selectedCloudFolder = None, app_error = None \<rparr>"

definition setScreen :: "AppScreen \<Rightarrow> AppState \<Rightarrow> AppState" where
  "setScreen s st = st\<lparr>screen := s\<rparr>"

definition setUser :: "KeyPayload option \<Rightarrow> AppState \<Rightarrow> AppState" where
  "setUser u st = st\<lparr>user := u\<rparr>"

definition setProgress :: "SyncProgress option \<Rightarrow> AppState \<Rightarrow> AppState" where
  "setProgress p st = st\<lparr>progress := p\<rparr>"

definition setCloudFolders :: "CloudFolder list \<Rightarrow> AppState \<Rightarrow> AppState" where
  "setCloudFolders folders st = st\<lparr>cloudFolders := folders\<rparr>"

definition addSourceFolder :: "string \<Rightarrow> AppState \<Rightarrow> AppState" where
  "addSourceFolder p st =
     st\<lparr>selectedSourceFolders :=
          (if p \<in> set (selectedSourceFolders st) then selectedSourceFolders st
           else selectedSourceFolders st @ [p])\<rparr>"

definition removeSourceFolder :: "string \<Rightarrow> AppState \<Rightarrow> AppState" where
  "removeSourceFolder p st =
     st\<lparr>selectedSourceFolders := filter (\<lambda>q. q \<noteq> p) (selectedSourceFolders st)\<rparr>"

definition clearSourceFolders :: "AppState \<Rightarrow> AppState" where
  "clearSourceFolders st = st\<lparr>selectedSourceFolders := []\<rparr>"

definition setTargetFolder :: "string option \<Rightarrow> AppState \<Rightarrow> AppState" where
  "setTargetFolder p st = st\<lparr>selectedTargetFolder := p\<rparr>"

definition setSelectedCloudFolder :: "string option \<Rightarrow> AppState \<Rightarrow> AppState" where
  "setSelectedCloudFolder p st = st\<lparr>selectedCloudFolder := p\<rparr>"

definition setError :: "string option \<Rightarrow> AppState \<Rightarrow> AppState" where
  "setError e st = st\<lparr>app_error := e\<rparr>"

definition reset :: "AppState \<Rightarrow> AppState" where
  "reset st = initialState"

text \<open>The calls a component can make on the store, and the store after a sequence of them.\<close>

datatype action =
    SetScreen AppScreen
  | SetUser "KeyPayload option"
  | SetProgress "SyncProgress option"
  | SetCloudFolders "CloudFolder list"
  | AddSourceFolder string
  | RemoveSourceFolder string
  | ClearSourceFolders
  | SetTargetFolder "string option"
  | SetSelectedCloudFolder "string option"
  | SetError "string option"
  | Reset

fun dispatch :: "action \<Rightarrow> AppState \<Rightarrow> AppState" where
  "dispatch (SetScreen s) = setScreen s"
| "dispatch (SetUser u) = setUser u"
| "dispatch (SetProgress p) = setProgress p"
| "dispatch (SetCloudFolders fs) = setCloudFolders fs"
| "dispatch (AddSourceFolder p) = addSourceFolder p"
| "dispatch (RemoveSourceFolder p) = removeSourceFolder p"
| "dispatch ClearSourceFolders = clearSourceFolders"
| "dispatch (SetTargetFolder p) = setTargetFolder p"
| "dispatch (SetSelectedCloudFolder p) = setSelectedCloudFolder p"
| "dispatch (SetError e) = setError e"
| "dispatch Reset = reset"

fun dispatch_all :: "action list \<Rightarrow> AppState \<Rightarrow> AppState" where
  "dispatch_all [] st = st"
| "dispatch_all (a # as) st = dispatch_all as (dispatch a st)"

inductive_set reachable :: "AppState set" where
  initial: "initialState \<in> reachable"
| after: "st \<in> reachable \<Longrightarrow> dispatch a st \<in> reachable"



section \<open>The key-entry form (\<open>components/KeyEntry.tsx\<close>)\<close>

text \<open>
  The local state of the form, and its submit handler. The handler is given the clock
  (\<open>Date.now()\<close>, an integer of milliseconds) and the \<open>validate_key\<close> command of the
  backend; it returns the new local state and the calls it made on the store, in order.
  A call that rejects is caught by the handler's \<open>catch\<close>; the \<open>finally\<close> clause clears
  the loading flag on every path that entered the \<open>try\<close>. \<open>Date.now() / 1000\<close> is a
  division of doubles: both operands are exact, the quotient is rounded.
\<close>

record KeyEntry_state =
  key :: string
  isLoading :: bool
  key_error :: "string option"

definition or_else :: "string option \<Rightarrow> string \<Rightarrow> string" where
  \<comment> \<open>\<open>a || b\<close> on a nullable string: \<open>b\<close> when \<open>a\<close> is null or empty\<close>
  "or_else a b = (if truthy_opt a then the a else b)"

definition handleSubmit ::
  "int \<Rightarrow> (string \<Rightarrow> ValidationResult promise) \<Rightarrow> KeyEntry_state
     \<Rightarrow> KeyEntry_state \<times> action list" where
  "handleSubmit now validateKey st =
     (if \<not> truthy (trim (key st)) then
        (st\<lparr>key_error := Some ''Please enter your sync key''\<rparr>, [])
      else
        let st1 = st\<lparr>isLoading := True, key_error := None\<rparr> in
        (case validateKey (trim (key st)) of
           Resolved result \<Rightarrow>
             if valid result \<and> truthy_opt (user_name result) then
               (st1\<lparr>isLoading := False\<rparr>,
                [SetUser (Some \<lparr>uid = [], name = the (user_name result),
                                created = to_double (of_int now / 1000)\<rparr>),
                 SetScreen Main])
             else
               (st1\<lparr>key_error := Some (or_else (error result) ''Invalid key''),
                    isLoading := False\<rparr>, [])
         | Rejected err \<Rightarrow>
             (st1\<lparr>key_error :=
                    Some (case err of ErrorObject m \<Rightarrow> m | OtherValue \<Rightarrow> ''Validation failed''),
                  isLoading := False\<rparr>, [])))"


section \<open>Start-up (\<open>app/page.tsx\<close>)\<close>

text \<open>
  The effect run once by \<open>Home\<close>: the store calls it makes, given whether the page runs
  inside Tauri and what \<open>check_stored_key\<close> and \<open>get_user_info\<close> answer. Neither call is
  inside a \<open>try\<close>: when one rejects, the effect ends there and no call is made.
\<close>

definition init ::
  "bool \<Rightarrow> bool promise \<Rightarrow> KeyPayload option promise \<Rightarrow> action list" where
  "init isTauri checkStoredKey getUserInfo =
     (if \<not> isTauri then [SetScreen KeyEntryScreen]
      else
        (case checkStoredKey of
           Rejected _ \<Rightarrow> []
         | Resolved hasKey \<Rightarrow>
             if hasKey then
               (case getUserInfo of
                  Rejected _ \<Rightarrow> []
                | Resolved (Some u) \<Rightarrow> [SetUser (Some u), SetScreen Main]
                | Resolved None \<Rightarrow> [SetScreen KeyEntryScreen])
             else [SetScreen KeyEntryScreen]))"


section \<open>The sync panel (\<open>components/SyncPanel.tsx\<close>)\<close>

text \<open>
  The part of the panel's local state that the handlers below read or write, the
  backend commands they invoke, and the handlers. A handler returns the new local state
  and the commands it invoked, in order; \<open>backend\<close> says how each invocation ends.
\<close>

datatype SyncMode = Upload | Download

record SyncPanel_state =
  mode :: "SyncMode option"
  panel_progress :: "SyncProgress option"
  isSyncing :: bool
  credentialsStatus :: "CredentialsStatus option"

datatype command =
    StartUpload "string list"
  | StartDownload string string
  | PauseSync
  | ResumeSync
  | CancelSync

subsection \<open>The polling effect\<close>

definition pollInterval :: "SyncPanel_state \<Rightarrow> nat option" where
  \<comment> \<open>the period in milliseconds of the interval the effect holds, if any: the effect
      runs again whenever \<open>isSyncing\<close> changes, its cleanup clearing the interval first\<close>
  "pollInterval st = (if isSyncing st then Some 500 else None)"

fun pollDone :: "js_value \<Rightarrow> bool" where
  \<comment> \<open>\<open>status === 'Completed' || (typeof status === 'object' && 'Error' in status)\<close>\<close>
  "pollDone (JString s) = (s = ''Completed'')"
| "pollDone (JObject props) = (map_of props ''Error'' \<noteq> None)"

definition poll_tick :: "SyncProgress promise \<Rightarrow> SyncPanel_state \<Rightarrow> SyncPanel_state" where
  "poll_tick answer st =
     (case answer of
        Resolved p \<Rightarrow>
          let st1 = st\<lparr>panel_progress := Some p\<rparr> in
          if pollDone (status_value (status p)) then st1\<lparr>isSyncing := False\<rparr> else st1
      | Rejected _ \<Rightarrow> st)"

text \<open>
  The callback of the interval is asynchronous: the timer fires every 500 ms whether or
  not the earlier calls of \<open>get_sync_progress\<close> have answered, and clearing the interval
  stops the timer but not a call already under way, whose answer is still handled by
  \<open>poll_tick\<close> when it arrives. So the polling is a sequence of two kinds of event, over
  the panel's state and the number of calls under way.
\<close>

datatype poll_event = TimerFires | Settles "SyncProgress promise"

record polling =
  panel :: SyncPanel_state
  in_flight :: nat

definition poll_step :: "poll_event \<Rightarrow> polling \<Rightarrow> polling" where
  "poll_step ev ps =
     (case ev of
        TimerFires \<Rightarrow>
          if pollInterval (panel ps) = None then ps
          else ps\<lparr>in_flight := in_flight ps + 1\<rparr>
      | Settles answer \<Rightarrow>
          if in_flight ps = 0 then ps
          else ps\<lparr>panel := poll_tick answer (panel ps), in_flight := in_flight ps - 1\<rparr>)"

fun poll :: "poll_event list \<Rightarrow> polling \<Rightarrow> polling" where
  "poll [] ps = ps"
| "poll (ev # evs) ps = poll evs (poll_step ev ps)"

definition terminal_answer :: "SyncProgress promise \<Rightarrow> bool" where
  \<comment> \<open>the answer of a tick that makes the tick end the polling\<close>
  "terminal_answer answer =
     (case answer of
        Resolved p \<Rightarrow> pollDone (status_value (status p))
      | Rejected _ \<Rightarrow> False)"

subsection \<open>The handlers\<close>

definition handleSelectSourceFolders :: "string list \<Rightarrow> action list" where
  "handleSelectSourceFolders folders = map AddSourceFolder folders"

definition handleStartUpload ::
  "(command \<Rightarrow> unit promise) \<Rightarrow> AppState \<Rightarrow> SyncPanel_state
     \<Rightarrow> SyncPanel_state \<times> command list" where
  "handleStartUpload backend app st =
     (if length (selectedSourceFolders app) = 0 then (st, [])
      else
        let st1 = st\<lparr>isSyncing := True\<rparr>;
            c = StartUpload (selectedSourceFolders app) in
        (case backend c of
           Resolved _ \<Rightarrow> (st1, [c])
         | Rejected _ \<Rightarrow> (st1\<lparr>isSyncing := False\<rparr>, [c])))"

definition handleStartDownload ::
  "(command \<Rightarrow> unit promise) \<Rightarrow> AppState \<Rightarrow> SyncPanel_state
     \<Rightarrow> SyncPanel_state \<times> command list" where
  "handleStartDownload backend app st =
     (if \<not> truthy_opt (selectedCloudFolder app) \<or> \<not> truthy_opt (selectedTargetFolder app)
      then (st, [])
      else
        let st1 = st\<lparr>isSyncing := True\<rparr>;
            c = StartDownload (the (selectedCloudFolder app)) (the (selectedTargetFolder app)) in
        (case backend c of
           Resolved _ \<Rightarrow> (st1, [c])
         | Rejected _ \<Rightarrow> (st1\<lparr>isSyncing := False\<rparr>, [c])))"

definition startUploadDisabled :: "AppState \<Rightarrow> bool" where
  "startUploadDisabled app = (length (selectedSourceFolders app) = 0)"

definition startDownloadDisabled :: "AppState \<Rightarrow> bool" where
  "startDownloadDisabled app =
     (\<not> truthy_opt (selectedCloudFolder app) \<or> \<not> truthy_opt (selectedTargetFolder app))"

definition clickStartUpload ::
  "(command \<Rightarrow> unit promise) \<Rightarrow> AppState \<Rightarrow> SyncPanel_state
     \<Rightarrow> SyncPanel_state \<times> command list" where
  \<comment> \<open>a disabled button does not run its \<open>onClick\<close>\<close>
  "clickStartUpload backend app st =
     (if startUploadDisabled app then (st, []) else handleStartUpload backend app st)"

definition clickStartDownload ::
  "(command \<Rightarrow> unit promise) \<Rightarrow> AppState \<Rightarrow> SyncPanel_state
     \<Rightarrow> SyncPanel_state \<times> command list" where
  "clickStartDownload backend app st =
     (if startDownloadDisabled app then (st, []) else handleStartDownload backend app st)"

definition handlePause ::
  "(command \<Rightarrow> unit promise) \<Rightarrow> SyncPanel_state \<Rightarrow> SyncPanel_state \<times> command list" where
  "handlePause backend st = (st, [PauseSync])"

definition handleResume ::
  "(command \<Rightarrow> unit promise) \<Rightarrow> SyncPanel_state \<Rightarrow> SyncPanel_state \<times> command list" where
  "handleResume backend st = (st, [ResumeSync])"

definition handleCancel ::
  "(command \<Rightarrow> unit promise) \<Rightarrow> SyncPanel_state \<Rightarrow> SyncPanel_state \<times> command list" where
  \<comment> \<open>no \<open>try\<close> here: when \<open>cancel_sync\<close> rejects, the two setters are not reached\<close>
  "handleCancel backend st =
     (case backend CancelSync of
        Resolved _ \<Rightarrow> (st\<lparr>isSyncing := False, panel_progress := None\<rparr>, [CancelSync])
      | Rejected _ \<Rightarrow> (st, [CancelSync]))"

definition handleBack :: "SyncPanel_state \<Rightarrow> SyncPanel_state \<times> action list" where
  "handleBack st =
     (st\<lparr>mode := None, panel_progress := None\<rparr>,
      [ClearSourceFolders, SetTargetFolder None, SetSelectedCloudFolder None])"

subsection \<open>The credentials banner\<close>

text \<open>
  What the panel renders is decided by a chain of early returns: the progress view while
  a snapshot is held and a sync is on, else the mode-selection screen when no mode is
  chosen, else the screen of the chosen mode. The banner is part of the mode-selection
  screen only.
\<close>

datatype panel_view = ProgressView | ModeSelection | UploadView | DownloadView

definition panelView :: "SyncPanel_state \<Rightarrow> panel_view" where
  "panelView st =
     (if panel_progress st \<noteq> None \<and> isSyncing st then ProgressView
      else
        (case mode st of
           None \<Rightarrow> ModeSelection
         | Some Upload \<Rightarrow> UploadView
         | Some Download \<Rightarrow> DownloadView))"

datatype banner_tone = Red | Amber | Teal

definition credentialsBanner :: "SyncPanel_state \<Rightarrow> (banner_tone \<times> string) option" where
  \<comment> \<open>shown on the mode-selection screen when the status is loaded and its warning is
      a non-empty string\<close>
  "credentialsBanner st =
     (if panelView st \<noteq> ModeSelection then None
      else
        (case credentialsStatus st of
           None \<Rightarrow> None
         | Some c \<Rightarrow>
             if truthy_opt (warning c) then
               Some (if \<not> cred_valid c then Red
                     else if days_remaining c \<le> 30 then Amber
                     else Teal,
                     the (warning c))
             else None))"


section \<open>The backend, as the specification describes it\<close>

text \<open>
  The commands the front end invokes are implemented by the Rust backend
  (\<open>src-tauri/src\<close>: \<open>admin.rs\<close>, \<open>crypto.rs\<close>, \<open>s3_client.rs\<close>, \<open>sync_engine.rs\<close>,
  \<open>commands.rs\<close>). Every definition of this section is modelled from the
  specification of that backend, section by section.
\<close>

subsection \<open>Admin policy\<close>

text \<open>Modelled from the spec: the result of \<open>authorize\<close>, \<open>Allowed | Denied(reason)\<close>.\<close>

datatype decision = Allowed | Denied string

fun is_denied :: "decision \<Rightarrow> bool" where
  "is_denied Allowed = False"
| "is_denied (Denied _) = True"

definition authorize :: "(string \<Rightarrow> string list option) \<Rightarrow> string \<Rightarrow> decision" where
  \<comment> \<open>Modelled from the spec: \<open>authorize\<close> of the Admin Policy Store (\<open>admin.rs\<close> is
      missing). \<open>fetch\<close> reads the uid list of a policy object, \<open>None\<close> when the fetch
      fails. The spec gives no reason text for a blacklisted or an unlisted uid; the
      name of its error class, Unauthorized, stands for it.\<close>
  "authorize fetch u =
     (case (fetch ''_admin/blacklist.json'', fetch ''_admin/whitelist.json'') of
        (Some blacklist, Some whitelist) \<Rightarrow>
          if u \<in> set blacklist then Denied ''unauthorized''
          else if whitelist = [] \<or> u \<in> set whitelist then Allowed
          else Denied ''unauthorized''
      | _ \<Rightarrow> Denied ''policy unavailable'')"

subsection \<open>Credential expiry\<close>

definition digit_char :: "nat \<Rightarrow> char" where
  "digit_char d = char_of (of_char CHR ''0'' + d)"

fun string_of_nat :: "nat \<Rightarrow> string" where
  \<comment> \<open>the decimal digits of a day count, for the warning text\<close>
  "string_of_nat n =
     (if n \<ge> 10 then string_of_nat (n div 10) @ [digit_char (n mod 10)]
      else [digit_char n])"

definition expiry_warning :: "int \<Rightarrow> string option" where
  \<comment> \<open>Modelled from the spec: the warning of \<open>check_expiry\<close> (\<open>s3_client.rs\<close> is
      missing). The spec fixes when a warning is present and that the expired one is
      distinct; the texts themselves are placeholders.\<close>
  "expiry_warning d =
     (if d < 0 then Some ''Credentials have expired''
      else if d \<le> 30 then Some (''Credentials expire in '' @ string_of_nat (nat d) @ '' days'')
      else None)"

definition check_expiry :: "int \<Rightarrow> string \<Rightarrow> int \<Rightarrow> CredentialsStatus" where
  \<comment> \<open>Modelled from the spec: \<open>check_expiry\<close> of the Credential Expiry Monitor
      (\<open>s3_client.rs\<close> is missing). Times are in seconds since the epoch: \<open>expires\<close> is
      the fixed expiry date, \<open>iso_text\<close> its ISO text, a day is 86400 seconds, and \<open>div\<close>
      on \<open>int\<close> rounds down as the spec's floor does.\<close>
  "check_expiry expires iso_text now =
     (let d = (expires - now) div 86400 in
      \<lparr> cred_valid = \<not> d < 0, days_remaining = d, expiry_date = iso_text,
        warning = expiry_warning d \<rparr>)"

subsection \<open>License keys\<close>

text \<open>
  Modelled from the spec: the License Crypto Module (\<open>crypto.rs\<close> is missing). The
  cipher, the serialiser and the text encoding are libraries the module calls; the
  module itself is the pipeline around them. They are the fields of \<open>crypto_lib\<close>,
  over any type \<open>'b\<close> of bytes.
\<close>

record 'b crypto_lib =
  to_json :: "KeyPayload \<Rightarrow> 'b list"
  from_json :: "'b list \<Rightarrow> KeyPayload option"
  aead_seal :: "'b list \<Rightarrow> 'b list \<Rightarrow> 'b list \<Rightarrow> 'b list"
  aead_open :: "'b list \<Rightarrow> 'b list \<Rightarrow> 'b list \<Rightarrow> 'b list option"
  encode :: "'b list \<Rightarrow> string"
  decode :: "string \<Rightarrow> 'b list option"

datatype crypto_error = InvalidKey

definition key_prefix :: string where
  \<comment> \<open>Modelled from the spec: the constant tag in front of every license key\<close>
  "key_prefix = ''EXAD-''"

definition nonce_len :: nat where
  \<comment> \<open>Modelled from the spec: the length of the nonce, which the spec leaves open;
      96 bits is the nonce of AES-256-GCM, the cipher the README names\<close>
  "nonce_len = 12"

definition encrypt :: "'b crypto_lib \<Rightarrow> 'b list \<Rightarrow> 'b list \<Rightarrow> KeyPayload \<Rightarrow> string" where
  \<comment> \<open>Modelled from the spec: \<open>encrypt\<close> of the License Crypto Module (\<open>crypto.rs\<close> is
      missing), with the nonce it draws as an argument. \<open>aead_seal mk nonce plain\<close> is
      the ciphertext followed by the tag.\<close>
  "encrypt L mk nonce P =
     key_prefix @ encode L (nonce @ aead_seal L mk nonce (to_json L P))"

definition decrypt ::
  "'b crypto_lib \<Rightarrow> 'b list \<Rightarrow> string \<Rightarrow> crypto_error + KeyPayload" where
  \<comment> \<open>Modelled from the spec: \<open>decrypt\<close> of the License Crypto Module (\<open>crypto.rs\<close> is
      missing): strip and validate the prefix, decode, split off the nonce, open the
      seal, parse; any failure is \<open>InvalidKey\<close>.\<close>
  "decrypt L mk s =
     (if \<not> prefix key_prefix s then Inl InvalidKey
      else
        (case decode L (drop (length key_prefix) s) of
           None \<Rightarrow> Inl InvalidKey
         | Some raw \<Rightarrow>
             if length raw < nonce_len then Inl InvalidKey
             else
               (case aead_open L mk (take nonce_len raw) (drop nonce_len raw) of
                  None \<Rightarrow> Inl InvalidKey
                | Some plain \<Rightarrow>
                    (case from_json L plain of
                       None \<Rightarrow> Inl InvalidKey
                     | Some P \<Rightarrow> Inr P))))"

text \<open>
  A small library for examples: the serialiser writes the name, the cipher appends the
  key as its tag and opens only what ends with it, the encoding is the identity. It
  parses only what it wrote for the one user Ann.
\<close>

definition example_lib :: "char crypto_lib" where
  "example_lib =
     \<lparr> to_json = name,
       from_json = (\<lambda>plain. if plain = ''Ann''
                     then Some \<lparr>uid = ''u_1'', name = ''Ann'', created = 0\<rparr> else None),
       aead_seal = (\<lambda>mk nonce plain. plain @ mk),
       aead_open = (\<lambda>mk nonce sealed.
                     if length mk \<le> length sealed
                        \<and> drop (length sealed - length mk) sealed = mk
                     then Some (take (length sealed - length mk) sealed) else None),
       encode = (\<lambda>raw. raw),
       decode = Some \<rparr>"

subsection \<open>Key validation\<close>

text \<open>
  Modelled from the spec: what the \<open>validate_key\<close> command works with (\<open>commands.rs\<close>
  is missing): the libraries and the master key, the policy objects, the expiry date
  and the clock.
\<close>

record 'b backend_env =
  lib :: "'b crypto_lib"
  master_key :: "'b list"
  fetch_policy :: "string \<Rightarrow> string list option"
  expiry :: int
  expiry_iso :: string
  clock :: int

definition validate_key :: "'b backend_env \<Rightarrow> string \<Rightarrow> ValidationResult" where
  \<comment> \<open>Modelled from the spec: the \<open>validate_key\<close> command (\<open>commands.rs\<close> is missing),
      which consults the crypto module, the expiry monitor and the admin policy and
      answers with a result value on every path.\<close>
  "validate_key env k =
     (case decrypt (lib env) (master_key env) k of
        Inl InvalidKey \<Rightarrow> \<lparr> valid = False, user_name = None, error = Some ''Invalid key'' \<rparr>
      | Inr P \<Rightarrow>
          if \<not> cred_valid (check_expiry (expiry env) (expiry_iso env) (clock env)) then
            \<lparr> valid = False, user_name = None, error = Some ''Credentials expired'' \<rparr>
          else
            (case authorize (fetch_policy env) (uid P) of
               Denied reason \<Rightarrow> \<lparr> valid = False, user_name = None, error = Some reason \<rparr>
             | Allowed \<Rightarrow> \<lparr> valid = True, user_name = Some (name P), error = None \<rparr>))"

definition example_env :: "char backend_env" where
  "example_env =
     \<lparr> lib = example_lib, master_key = replicate 32 CHR ''k'',
       fetch_policy = (\<lambda>object. Some []),
       expiry = 1795824000, expiry_iso = ''2026-11-28'', clock = 1790000000 \<rparr>"

subsection \<open>The transfer worker's control signals\<close>

text \<open>
  Modelled from the spec: the state shared by the commands and the Transfer Worker
  (\<open>sync_engine.rs\<close> is missing): the published snapshot and the two signals; and the
  units of work the worker accounts for.
\<close>

record engine =
  snapshot :: SyncProgress
  cancel_requested :: bool
  pause_requested :: bool

datatype work = Chunk nat | FileDone | PlanDone | Failure string

definition is_active :: "SyncStatus \<Rightarrow> bool" where
  \<comment> \<open>Modelled from the spec: a sync is active while \<open>Scanning\<close>, \<open>Syncing\<close> or \<open>Paused\<close>\<close>
  "is_active s = (s = Scanning \<or> s = Syncing \<or> s = Paused)"

definition cancel_sync :: "engine \<Rightarrow> engine" where
  \<comment> \<open>Modelled from the spec: the \<open>cancel_sync\<close> command (\<open>sync_engine.rs\<close> is missing)
      raises a one-way signal and returns without waiting for the worker.\<close>
  "cancel_sync e = e\<lparr>cancel_requested := True\<rparr>"

definition pause_sync :: "engine \<Rightarrow> engine" where
  \<comment> \<open>Modelled from the spec: the \<open>pause_sync\<close> command sets the pause signal.\<close>
  "pause_sync e = e\<lparr>pause_requested := True\<rparr>"

definition resume_sync :: "engine \<Rightarrow> engine" where
  \<comment> \<open>Modelled from the spec: the \<open>resume_sync\<close> command clears the pause signal.\<close>
  "resume_sync e = e\<lparr>pause_requested := False\<rparr>"

definition set_status :: "SyncStatus \<Rightarrow> engine \<Rightarrow> engine" where
  "set_status s e = e\<lparr>snapshot := (snapshot e)\<lparr>status := s\<rparr>\<rparr>"

definition worker_step :: "work \<Rightarrow> engine \<Rightarrow> engine" where
  \<comment> \<open>Modelled from the spec: one turn of the Transfer Worker's loop (\<open>sync_engine.rs\<close>
      is missing). The worker looks at the signals between units of work: a cancel
      aborts the run, leaving the counters and any partial file as they are, and the
      published status becomes \<open>Idle\<close>; a pause parks it; otherwise the unit of work
      \<open>w\<close> is accounted for in the snapshot.\<close>
  "worker_step w e =
     (if \<not> is_active (status (snapshot e)) then e
      else if cancel_requested e then set_status Idle e
      else if pause_requested e then set_status Paused e
      else
        (case w of
           Chunk n \<Rightarrow>
             e\<lparr>snapshot := (snapshot e)\<lparr>status := Syncing,
                  transferred_bytes := transferred_bytes (snapshot e) + n\<rparr>\<rparr>
         | FileDone \<Rightarrow>
             e\<lparr>snapshot := (snapshot e)\<lparr>status := Syncing,
                  completed_files := completed_files (snapshot e) + 1\<rparr>\<rparr>
         | PlanDone \<Rightarrow> set_status Completed e
         | Failure m \<Rightarrow> set_status (Error m) e))"

definition get_sync_progress :: "engine \<Rightarrow> SyncProgress" where
  \<comment> \<open>Modelled from the spec: the \<open>get_sync_progress\<close> command reads the snapshot.\<close>
  "get_sync_progress e = snapshot e"

text \<open>The control commands in the order they arrive.\<close>

datatype signal = Pause | Resume | Cancel

fun deliver :: "signal \<Rightarrow> engine \<Rightarrow> engine" where
  "deliver Pause = pause_sync"
| "deliver Resume = resume_sync"
| "deliver Cancel = cancel_sync"

fun deliver_all :: "signal list \<Rightarrow> engine \<Rightarrow> engine" where
  "deliver_all [] e = e"
| "deliver_all (s # ss) e = deliver_all ss (deliver s e)"


section \<open>Properties of the status text\<close>

text \<open>
  C7. \<open>getStatusText\<close> maps each plain tag of \<open>SyncStatus\<close> to its fixed display
  string and the error-carrying variant to \<open>Error: \<close> followed by its message, whatever
  the message is. The function is total: every status value has one of these texts.
\<close>

theorem getStatusText_total:
  "getStatusText (status_value Idle) = ''Ready''
   \<and> getStatusText (status_value Scanning) = ''Scanning files...''
   \<and> getStatusText (status_value Syncing) = ''Syncing...''
   \<and> getStatusText (status_value Paused) = ''Paused''
   \<and> getStatusText (status_value Completed) = ''Completed''
   \<and> (\<forall>m. getStatusText (status_value (Error m)) = ''Error: '' @ m)"
  by simp


section \<open>Properties of the store\<close>

lemmas store_defs = setScreen_def setUser_def setProgress_def setCloudFolders_def
  addSourceFolder_def removeSourceFolder_def clearSourceFolders_def setTargetFolder_def
  setSelectedCloudFolder_def setError_def reset_def initialState_def

lemma dispatch_keeps_distinct:
  "distinct (selectedSourceFolders st) \<Longrightarrow> distinct (selectedSourceFolders (dispatch a st))"
  by (cases a) (simp_all add: store_defs)

lemma reachable_distinct:
  "st \<in> reachable \<Longrightarrow> distinct (selectedSourceFolders st)"
proof (induction rule: reachable.induct)
  case initial
  show ?case by (simp add: initialState_def)
next
  case (after st a)
  then show ?case by (simp add: dispatch_keeps_distinct)
qed

lemma dispatch_all_reachable:
  "st \<in> reachable \<Longrightarrow> dispatch_all as st \<in> reachable"
  by (induction as arbitrary: st) (simp_all add: reachable.after)

text \<open>
  C8. The list of selected source folders never holds a path twice. It starts empty;
  \<open>addSourceFolder p\<close> leaves it as it is when \<open>p\<close> is in it (so adding twice is adding
  once) and appends \<open>p\<close> at the end otherwise; \<open>removeSourceFolder p\<close> removes every
  occurrence of \<open>p\<close> and keeps the rest in order; and every store action keeps a
  duplicate-free list duplicate-free, so every state the store can reach has one.
\<close>

theorem source_folders_never_duplicated:
  "selectedSourceFolders initialState = []
   \<and> (\<forall>st \<in> reachable. distinct (selectedSourceFolders st))
   \<and> (\<forall>as. distinct (selectedSourceFolders (dispatch_all as initialState)))
   \<and> (\<forall>p st. selectedSourceFolders (addSourceFolder p st) =
         (if p \<in> set (selectedSourceFolders st) then selectedSourceFolders st
          else selectedSourceFolders st @ [p]))
   \<and> (\<forall>p st. addSourceFolder p (addSourceFolder p st) = addSourceFolder p st)
   \<and> (\<forall>p st. p \<notin> set (selectedSourceFolders (removeSourceFolder p st))
         \<and> selectedSourceFolders (removeSourceFolder p st) =
             filter (\<lambda>q. q \<noteq> p) (selectedSourceFolders st))
   \<and> (\<forall>a st. distinct (selectedSourceFolders st)
         \<longrightarrow> distinct (selectedSourceFolders (dispatch a st)))"
proof -
  have start: "selectedSourceFolders initialState = []"
    by (simp add: initialState_def)
  have inv: "\<forall>st \<in> reachable. distinct (selectedSourceFolders st)"
    by (simp add: reachable_distinct)
  have runs: "\<forall>as. distinct (selectedSourceFolders (dispatch_all as initialState))"
    by (simp add: reachable_distinct dispatch_all_reachable reachable.initial)
  have add: "\<forall>p st. selectedSourceFolders (addSourceFolder p st) =
         (if p \<in> set (selectedSourceFolders st) then selectedSourceFolders st
          else selectedSourceFolders st @ [p])"
    by (simp add: addSourceFolder_def)
  have idem: "\<forall>p st. addSourceFolder p (addSourceFolder p st) = addSourceFolder p st"
    by (simp add: addSourceFolder_def)
  have remove: "\<forall>p st. p \<notin> set (selectedSourceFolders (removeSourceFolder p st))
         \<and> selectedSourceFolders (removeSourceFolder p st) =
             filter (\<lambda>q. q \<noteq> p) (selectedSourceFolders st)"
    by (simp add: removeSourceFolder_def)
  have keep: "\<forall>a st. distinct (selectedSourceFolders st)
         \<longrightarrow> distinct (selectedSourceFolders (dispatch a st))"
    by (simp add: dispatch_keeps_distinct)
  from start inv runs add idem remove keep show ?thesis
    by (intro conjI)
qed

text \<open>Adding \<open>/a\<close>, \<open>/b\<close> and \<open>/a\<close> again, then removing \<open>/b\<close>.\<close>

theorem source_folders_never_duplicated_witness:
  "distinct (selectedSourceFolders
      (dispatch_all [AddSourceFolder ''/a'', AddSourceFolder ''/b'', AddSourceFolder ''/a'',
                     SetScreen Main, RemoveSourceFolder ''/b''] initialState))
   \<and> selectedSourceFolders
      (dispatch_all [AddSourceFolder ''/a'', AddSourceFolder ''/b'', AddSourceFolder ''/a'']
         initialState) = [''/a'', ''/b'']
   \<and> selectedSourceFolders
      (dispatch_all [AddSourceFolder ''/a'', AddSourceFolder ''/b'', AddSourceFolder ''/a'',
                     SetScreen Main, RemoveSourceFolder ''/b''] initialState) = [''/a'']"
proof -
  from source_folders_never_duplicated
  have "\<forall>as. distinct (selectedSourceFolders (dispatch_all as initialState))"
    by (elim conjE)
  then have "distinct (selectedSourceFolders
      (dispatch_all [AddSourceFolder ''/a'', AddSourceFolder ''/b'', AddSourceFolder ''/a'',
                     SetScreen Main, RemoveSourceFolder ''/b''] initialState))"
    by (rule spec)
  then show ?thesis
    by (simp add: store_defs)
qed


section \<open>Properties of the sync panel\<close>

lemma truthy_opt_Some: "truthy_opt x \<Longrightarrow> \<exists>s. x = Some s \<and> s \<noteq> []"
  by (cases x) (simp_all add: truthy_def)

text \<open>
  C9. The panel never invokes \<open>start_upload\<close> with an empty list: with no source folder
  selected, \<open>handleStartUpload\<close> returns without invoking anything and the start button
  is disabled; any command it does invoke is \<open>start_upload\<close> with the selected,
  non-empty list. Likewise \<open>handleStartDownload\<close> invokes nothing unless a cloud folder
  and a target folder are both selected, and then \<open>start_download\<close> with these two.
\<close>

theorem start_commands_guarded:
  "(selectedSourceFolders app = [] \<longrightarrow>
      handleStartUpload backend app st = (st, []) \<and> startUploadDisabled app)
   \<and> (selectedSourceFolders app \<noteq> [] \<longrightarrow>
      snd (handleStartUpload backend app st) = [StartUpload (selectedSourceFolders app)])
   \<and> (\<forall>c \<in> set (snd (handleStartUpload backend app st)).
        c = StartUpload (selectedSourceFolders app) \<and> selectedSourceFolders app \<noteq> [])
   \<and> (\<forall>c \<in> set (snd (clickStartUpload backend app st)).
        c = StartUpload (selectedSourceFolders app) \<and> selectedSourceFolders app \<noteq> [])
   \<and> (selectedCloudFolder app = None \<or> selectedTargetFolder app = None \<longrightarrow>
      handleStartDownload backend app st = (st, []) \<and> startDownloadDisabled app)
   \<and> (\<forall>c \<in> set (snd (handleStartDownload backend app st)).
        \<exists>cloud target. selectedCloudFolder app = Some cloud
          \<and> selectedTargetFolder app = Some target \<and> c = StartDownload cloud target)
   \<and> (\<forall>c \<in> set (snd (clickStartDownload backend app st)).
        \<exists>cloud target. selectedCloudFolder app = Some cloud
          \<and> selectedTargetFolder app = Some target \<and> c = StartDownload cloud target)"
proof -
  have up_empty: "selectedSourceFolders app = [] \<longrightarrow>
      handleStartUpload backend app st = (st, []) \<and> startUploadDisabled app"
    by (simp add: handleStartUpload_def startUploadDisabled_def)
  have up_call: "selectedSourceFolders app \<noteq> [] \<longrightarrow>
      snd (handleStartUpload backend app st) = [StartUpload (selectedSourceFolders app)]"
    by (simp add: handleStartUpload_def Let_def split: promise.split)
  have up_only: "\<forall>c \<in> set (snd (handleStartUpload backend app st)).
        c = StartUpload (selectedSourceFolders app) \<and> selectedSourceFolders app \<noteq> []"
    by (simp add: handleStartUpload_def Let_def split: promise.split)
  have up_click: "\<forall>c \<in> set (snd (clickStartUpload backend app st)).
        c = StartUpload (selectedSourceFolders app) \<and> selectedSourceFolders app \<noteq> []"
    using up_only by (simp add: clickStartUpload_def)
  have down_none: "selectedCloudFolder app = None \<or> selectedTargetFolder app = None \<longrightarrow>
      handleStartDownload backend app st = (st, []) \<and> startDownloadDisabled app"
    by (auto simp add: handleStartDownload_def startDownloadDisabled_def)
  have down_only: "\<forall>c \<in> set (snd (handleStartDownload backend app st)).
        \<exists>cloud target. selectedCloudFolder app = Some cloud
          \<and> selectedTargetFolder app = Some target \<and> c = StartDownload cloud target"
    by (auto simp add: handleStartDownload_def Let_def split: promise.split
          dest!: truthy_opt_Some)
  have down_click: "\<forall>c \<in> set (snd (clickStartDownload backend app st)).
        \<exists>cloud target. selectedCloudFolder app = Some cloud
          \<and> selectedTargetFolder app = Some target \<and> c = StartDownload cloud target"
    using down_only by (simp add: clickStartDownload_def)
  from up_empty up_call up_only up_click down_none down_only down_click show ?thesis
    by (intro conjI)
qed

text \<open>One folder selected: the upload starts with it. None selected: nothing is invoked.\<close>

theorem start_commands_guarded_witness:
  "selectedSourceFolders (addSourceFolder ''/data'' initialState) \<noteq> []
   \<and> snd (handleStartUpload (\<lambda>c. Resolved ()) (addSourceFolder ''/data'' initialState)
      \<lparr>mode = Some Upload, panel_progress = None, isSyncing = False, credentialsStatus = None\<rparr>)
    = [StartUpload [''/data'']]
   \<and> selectedSourceFolders initialState = []
   \<and> handleStartUpload (\<lambda>c. Resolved ()) initialState
      \<lparr>mode = Some Upload, panel_progress = None, isSyncing = False, credentialsStatus = None\<rparr>
    = (\<lparr>mode = Some Upload, panel_progress = None, isSyncing = False,
        credentialsStatus = None\<rparr>, [])"
proof -
  let ?app = "addSourceFolder ''/data'' initialState"
  let ?st = "\<lparr>mode = Some Upload, panel_progress = None, isSyncing = False,
              credentialsStatus = None\<rparr>"
  let ?backend = "\<lambda>c::command. Resolved ()"
  have folders: "selectedSourceFolders ?app = [''/data'']"
    by (simp add: addSourceFolder_def initialState_def)
  have none: "selectedSourceFolders initialState = []"
    by (simp add: initialState_def)
  from start_commands_guarded [of ?app ?backend ?st]
  have "selectedSourceFolders ?app \<noteq> [] \<longrightarrow>
      snd (handleStartUpload ?backend ?app ?st) = [StartUpload (selectedSourceFolders ?app)]"
    by (elim conjE)
  with folders have called: "snd (handleStartUpload ?backend ?app ?st) = [StartUpload [''/data'']]"
    by simp
  from start_commands_guarded [of initialState ?backend ?st]
  have "selectedSourceFolders initialState = [] \<longrightarrow>
      handleStartUpload ?backend initialState ?st = (?st, []) \<and> startUploadDisabled initialState"
    by (elim conjE)
  with none have "handleStartUpload ?backend initialState ?st = (?st, [])"
    by simp
  with folders none called show ?thesis
    by simp
qed


section \<open>Properties of the rounding to a double\<close>

lemma bitlen_rat_bounds:
  assumes "0 < p"
  shows "(2::rat) powi (bitlen p - 1) \<le> of_int p" and "of_int p < (2::rat) powi bitlen p"
proof -
  from assms have one: "1 \<le> bitlen p"
    using bitlen_eq_zero_iff [of p] bitlen_nonneg [of p] by linarith
  from bitlen_bounds [OF assms]
  have lo: "2 ^ nat (bitlen p - 1) \<le> p" and hi: "p < 2 ^ nat (bitlen p)"
    by simp_all
  from lo have "rat_of_int (2 ^ nat (bitlen p - 1)) \<le> of_int p"
    by (simp only: of_int_le_iff)
  with one show "(2::rat) powi (bitlen p - 1) \<le> of_int p"
    by (simp add: power_int_nonneg_exp)
  from hi have "rat_of_int p < of_int (2 ^ nat (bitlen p))"
    by (simp only: of_int_less_iff)
  with one show "of_int p < (2::rat) powi bitlen p"
    by (simp add: power_int_nonneg_exp)
qed

lemma binade_bounds:
  assumes "x \<noteq> 0"
  shows "2 powi binade x \<le> \<bar>x\<bar> \<and> \<bar>x\<bar> < 2 powi (binade x + 1)"
proof -
  obtain p q where pq: "quotient_of \<bar>x\<bar> = (p, q)"
    by (cases "quotient_of \<bar>x\<bar>")
  then have q: "0 < q" and x: "\<bar>x\<bar> = of_int p / of_int q"
    using quotient_of_denom_pos [OF pq] quotient_of_div [OF pq] by simp_all
  from assms have "0 < \<bar>x\<bar>" by simp
  with x q have p: "0 < p"
    by (simp add: zero_less_divide_iff)
  let ?d = "bitlen p - bitlen q"
  have upper: "\<bar>x\<bar> < 2 powi (?d + 1)"
  proof -
    have "of_int p / of_int q < (2::rat) powi bitlen p / 2 powi (bitlen q - 1)"
      using bitlen_rat_bounds [OF p] bitlen_rat_bounds [OF q] p q
      by (intro frac_less) simp_all
    also have "\<dots> = 2 powi (?d + 1)"
      by (simp add: power_int_diff flip: power_int_diff) (simp add: power_int_diff algebra_simps)
    finally show ?thesis by (simp add: x)
  qed
  have lower: "2 powi (?d - 1) < \<bar>x\<bar>"
  proof -
    have "(2::rat) powi (bitlen p - 1) / 2 powi bitlen q < of_int p / of_int q"
      using bitlen_rat_bounds [OF p] bitlen_rat_bounds [OF q] p q
      by (simp add: frac_less2)
    moreover have "(2::rat) powi ((bitlen p - 1) - bitlen q) = 2 powi (bitlen p - 1) / 2 powi bitlen q"
      by (rule power_int_diff) simp
    moreover have "(bitlen p - 1) - bitlen q = ?d - 1"
      by simp
    ultimately show ?thesis by (simp add: x)
  qed
  show ?thesis
  proof (cases "2 powi ?d \<le> \<bar>x\<bar>")
    case True
    with pq have "binade x = ?d" by (simp add: binade_def)
    with True upper show ?thesis by simp
  next
    case False
    with pq have "binade x = ?d - 1" by (simp add: binade_def)
    with False lower show ?thesis by simp
  qed
qed

lemma round_half_even_near: "\<bar>of_int (round_half_even y) - y\<bar> \<le> 1 / 2"
proof -
  have "of_int \<lfloor>y\<rfloor> \<le> y" and "y < of_int \<lfloor>y\<rfloor> + 1"
    by linarith+
  then show ?thesis
    by (auto simp add: round_half_even_def Let_def abs_le_iff)
qed

lemma round_half_even_of_int: "round_half_even (of_int m) = m"
  by (simp add: round_half_even_def)

lemma to_double_near:
  "\<bar>to_double x - x\<bar> \<le> 2 powi (binade x - 53)"
proof (cases "x = 0")
  case True
  then show ?thesis by (simp add: to_double_def)
next
  case False
  let ?ulp = "(2::rat) powi (binade x - 52)"
  have pos: "0 < ?ulp" by simp
  have half: "?ulp / 2 = 2 powi (binade x - 53)"
    using power_int_diff [of "2::rat" "binade x - 52" 1] by simp
  have "to_double x - x = (of_int (round_half_even (x / ?ulp)) - x / ?ulp) * ?ulp"
    using False pos by (simp add: to_double_def Let_def algebra_simps)
  then have "\<bar>to_double x - x\<bar> = \<bar>of_int (round_half_even (x / ?ulp)) - x / ?ulp\<bar> * ?ulp"
    using pos by (simp add: abs_mult)
  also have "\<dots> \<le> 1 / 2 * ?ulp"
    using round_half_even_near [of "x / ?ulp"] pos by (intro mult_right_mono) simp_all
  finally show ?thesis using half by simp
qed

lemma to_double_representable:
  "x = of_int m * 2 powi (binade x - 52) \<Longrightarrow> to_double x = x"
proof (cases "x = 0")
  case True
  then show ?thesis by (simp add: to_double_def)
next
  case False
  assume rep: "x = of_int m * 2 powi (binade x - 52)"
  let ?ulp = "(2::rat) powi (binade x - 52)"
  have "x / ?ulp = of_int m"
    using rep by (metis nonzero_mult_div_cancel_right power_int_eq_0_iff zero_neq_numeral)
  then have "round_half_even (x / ?ulp) = m"
    by (simp add: round_half_even_of_int)
  with False rep show ?thesis
    by (simp add: to_double_def Let_def)
qed


section \<open>Properties of the key-entry form\<close>


lemma handleSubmit_accept:
  assumes "truthy (trim (key st))" and "f (trim (key st)) = Resolved r"
    and "valid r" and "user_name r = Some n" and "truthy n"
  shows "handleSubmit now f st =
     (st\<lparr>isLoading := False, key_error := None\<rparr>,
      [SetUser (Some \<lparr>uid = [], name = n, created = to_double (of_int now / 1000)\<rparr>), SetScreen Main])"
  using assms by (simp add: handleSubmit_def Let_def)





text \<open>
  C10. After a key is accepted (the result is valid and carries a non-empty user name),
  the user the form stores has the empty string as \<open>uid\<close> and, as \<open>created\<close>, the
  clock's time in seconds: the double nearest to \<open>Date.now() / 1000\<close>, within half a
  unit in the last place of it. Only the name comes from the validation result, so the
  stored user differs from every key payload with a non-empty \<open>uid\<close>. The payload
  itself reaches the store at start-up, when a key is stored and \<open>get_user_info\<close>
  returns it.
\<close>

theorem key_entry_user_is_placeholder:
  assumes "truthy (trim (key st))"
    and "validateKey (trim (key st)) = Resolved r"
    and "valid r" and "user_name r = Some n" and "truthy n"
  shows "user (dispatch_all (snd (handleSubmit now validateKey st)) app) =
            Some \<lparr>uid = [], name = n, created = to_double (of_int now / 1000)\<rparr>
         \<and> screen (dispatch_all (snd (handleSubmit now validateKey st)) app) = Main
         \<and> (\<forall>P. uid P \<noteq> [] \<longrightarrow>
               user (dispatch_all (snd (handleSubmit now validateKey st)) app) \<noteq> Some P)
         \<and> (\<forall>P. user (dispatch_all (init True (Resolved True) (Resolved (Some P))) app) = Some P
               \<and> screen (dispatch_all (init True (Resolved True) (Resolved (Some P))) app) = Main)
         \<and> \<bar>to_double (of_int now / 1000) - of_int now / 1000\<bar>
               \<le> 2 powi (binade (of_int now / 1000) - 53)"
proof -
  have calls: "snd (handleSubmit now validateKey st) =
      [SetUser (Some \<lparr>uid = [], name = n, created = to_double (of_int now / 1000)\<rparr>), SetScreen Main]"
    using assms by (simp add: handleSubmit_accept)
  have stored: "user (dispatch_all (snd (handleSubmit now validateKey st)) app) =
            Some \<lparr>uid = [], name = n, created = to_double (of_int now / 1000)\<rparr>"
    by (simp add: calls setUser_def setScreen_def)
  have shown: "screen (dispatch_all (snd (handleSubmit now validateKey st)) app) = Main"
    by (simp add: calls setUser_def setScreen_def)
  have differs: "\<forall>P. uid P \<noteq> [] \<longrightarrow>
               user (dispatch_all (snd (handleSubmit now validateKey st)) app) \<noteq> Some P"
    unfolding stored by auto
  have startup: "\<forall>P. user (dispatch_all (init True (Resolved True) (Resolved (Some P))) app) = Some P
               \<and> screen (dispatch_all (init True (Resolved True) (Resolved (Some P))) app) = Main"
    by (simp add: init_def setUser_def setScreen_def)
  have near: "\<bar>to_double (of_int now / 1000) - of_int now / 1000\<bar>
               \<le> 2 powi (binade (of_int now / 1000) - 53)"
    by (rule to_double_near)
  from stored shown differs startup near show ?thesis
    by (intro conjI)
qed

text \<open>
  A key accepted for Ann at 1700000000123 ms: 1700000000.123 is not a double, and the
  stored \<open>created\<close> is the double next to it.
\<close>

theorem key_entry_user_is_placeholder_witness:
  "user (dispatch_all
      (snd (handleSubmit 1700000000123
              (\<lambda>k. Resolved \<lparr>valid = True, user_name = Some ''Ann'', error = None\<rparr>)
              \<lparr>key = '' EXAD-abc '', isLoading = False, key_error = None\<rparr>))
      initialState)
    = Some \<lparr>uid = [], name = ''Ann'', created = 7130316800515899 / 4194304\<rparr>"
proof -
  let ?st = "\<lparr>key = '' EXAD-abc '', isLoading = False, key_error = None\<rparr>"
  let ?r = "\<lparr>valid = True, user_name = Some ''Ann'', error = None\<rparr>"
  have nonblank: "truthy (trim (key ?st))"
    by (simp add: truthy_def trim_def is_white_space_def)
  have rounded: "to_double (of_int 1700000000123 / 1000) = 7130316800515899 / 4194304"
    by code_simp
  have "user (dispatch_all (snd (handleSubmit 1700000000123 (\<lambda>k. Resolved ?r) ?st)) initialState)
      = Some \<lparr>uid = [], name = ''Ann'', created = to_double (of_int 1700000000123 / 1000)\<rparr>"
    using key_entry_user_is_placeholder
      [of ?st "\<lambda>k. Resolved ?r" ?r "''Ann''" 1700000000123 initialState] nonblank
    by (simp add: truthy_def)
  then show ?thesis
    unfolding rounded .
qed

lemma example_key_accepted:
  "validate_key example_env
     (encrypt example_lib (replicate 32 CHR ''k'') (replicate 12 CHR ''n'')
        \<lparr>uid = ''u_1'', name = ''Ann'', created = 0\<rparr>)
   = \<lparr>valid = True, user_name = Some ''Ann'', error = None\<rparr>"
  by (simp add: validate_key_def example_env_def example_lib_def encrypt_def decrypt_def
      key_prefix_def nonce_len_def check_expiry_def authorize_def)

lemma decrypt_needs_prefix:
  "\<not> prefix key_prefix k \<Longrightarrow> decrypt L mk k = Inl InvalidKey"
  by (simp add: decrypt_def)








section \<open>Properties of polling and cancelling\<close>

lemma pollDone_status:
  "pollDone (status_value s) \<longleftrightarrow> s = Completed \<or> (\<exists>m. s = Error m)"
  by (cases s) simp_all

lemma terminal_answer_iff:
  "terminal_answer a \<longleftrightarrow>
     (\<exists>p. a = Resolved p \<and> (status p = Completed \<or> (\<exists>m. status p = Error m)))"
  by (cases a) (simp_all add: terminal_answer_def pollDone_status)

lemma poll_tick_Resolved:
  "poll_tick (Resolved p) st =
     st\<lparr>panel_progress := Some p,
        isSyncing := isSyncing st \<and> \<not> terminal_answer (Resolved p)\<rparr>"
  by (simp add: poll_tick_def terminal_answer_def Let_def)

lemma poll_tick_Rejected: "poll_tick (Rejected e) st = st"
  by (simp add: poll_tick_def)

lemma poll_tick_isSyncing:
  "isSyncing (poll_tick a st) \<longleftrightarrow> isSyncing st \<and> \<not> terminal_answer a"
  by (cases a) (simp_all add: poll_tick_Resolved poll_tick_Rejected terminal_answer_def)

lemma poll_step_isSyncing:
  "isSyncing (panel (poll_step ev ps)) \<Longrightarrow> isSyncing (panel ps)"
  by (cases ev) (simp_all add: poll_step_def poll_tick_isSyncing split: if_splits)

lemma poll_step_in_flight:
  "\<not> isSyncing (panel ps) \<Longrightarrow> in_flight (poll_step ev ps) \<le> in_flight ps"
  by (cases ev) (simp_all add: poll_step_def pollInterval_def)

lemma poll_append: "poll (evs @ evs') ps = poll evs' (poll evs ps)"
  by (induction evs arbitrary: ps) simp_all

lemma poll_fold: "poll evs ps = fold poll_step evs ps"
  by (induction evs arbitrary: ps) simp_all

lemma poll_stays_stopped:
  "\<not> isSyncing (panel ps) \<Longrightarrow>
     \<not> isSyncing (panel (poll evs ps)) \<and> in_flight (poll evs ps) \<le> in_flight ps"
proof (induction evs arbitrary: ps)
  case Nil
  then show ?case by simp
next
  case (Cons ev evs)
  from Cons.prems have stopped: "\<not> isSyncing (panel (poll_step ev ps))"
    using poll_step_isSyncing by blast
  from Cons.prems have "in_flight (poll_step ev ps) \<le> in_flight ps"
    by (rule poll_step_in_flight)
  with Cons.IH [OF stopped] show ?case
    by simp
qed

lemma poll_goes_on:
  "isSyncing (panel ps) \<Longrightarrow> \<forall>a. Settles a \<in> set evs \<longrightarrow> \<not> terminal_answer a \<Longrightarrow>
     isSyncing (panel (poll evs ps))"
proof (induction evs arbitrary: ps)
  case Nil
  then show ?case by simp
next
  case (Cons ev evs)
  have "isSyncing (panel (poll_step ev ps))"
  proof (cases ev)
    case TimerFires
    with Cons.prems show ?thesis by (simp add: poll_step_def)
  next
    case (Settles a)
    with Cons.prems have "\<not> terminal_answer a" by simp
    with Settles Cons.prems show ?thesis
      by (simp add: poll_step_def poll_tick_isSyncing)
  qed
  with Cons show ?case by simp
qed

text \<open>
  C5. While \<open>isSyncing\<close> holds, the panel holds an interval of 500 ms, and none
  otherwise; the timer starts a call of \<open>get_sync_progress\<close> each time it fires, and
  only while the interval is held. Every answer that arrives is handled by one tick:
  a snapshot is stored, a failed call changes nothing. So over any sequence of timer
  and answer events, each snapshot that is returned is stored when it arrives. The
  answer of a call ends the polling exactly when it is a snapshot whose status is
  \<open>Completed\<close> or carries an error: as long as no such snapshot has arrived the interval
  is held, and once the interval is cleared it stays cleared and no further call is
  started (the calls already under way still answer, and their snapshots are stored).
\<close>

theorem polling_until_terminal:
  "pollInterval st = (if isSyncing st then Some 500 else None)
   \<and> (\<forall>p. poll_tick (Resolved p) st =
         st\<lparr>panel_progress := Some p,
            isSyncing := isSyncing st
               \<and> \<not> (status p = Completed \<or> (\<exists>m. status p = Error m))\<rparr>)
   \<and> (\<forall>e. poll_tick (Rejected e) st = st)
   \<and> poll_step TimerFires ps =
        (if isSyncing (panel ps) then ps\<lparr>in_flight := in_flight ps + 1\<rparr> else ps)
   \<and> (\<forall>a. poll_step (Settles a) ps =
        (if 0 < in_flight ps
         then ps\<lparr>panel := poll_tick a (panel ps), in_flight := in_flight ps - 1\<rparr> else ps))
   \<and> poll evs ps = fold poll_step evs ps
   \<and> (\<forall>p. 0 < in_flight (poll evs ps) \<longrightarrow>
        panel_progress (panel (poll (evs @ [Settles (Resolved p)]) ps)) = Some p)
   \<and> (\<forall>a. isSyncing (panel ps) \<and> 0 < in_flight ps \<longrightarrow>
        (pollInterval (panel (poll_step (Settles a) ps)) = None \<longleftrightarrow>
           (\<exists>p. a = Resolved p \<and> (status p = Completed \<or> (\<exists>m. status p = Error m)))))
   \<and> (isSyncing (panel ps)
        \<and> (\<forall>p. Settles (Resolved p) \<in> set evs \<longrightarrow>
              \<not> (status p = Completed \<or> (\<exists>m. status p = Error m))) \<longrightarrow>
        pollInterval (panel (poll evs ps)) = Some 500)
   \<and> (pollInterval (panel ps) = None \<longrightarrow>
        pollInterval (panel (poll evs ps)) = None
        \<and> in_flight (poll evs ps) \<le> in_flight ps)"
proof -
  have period: "pollInterval st = (if isSyncing st then Some 500 else None)"
    by (simp add: pollInterval_def)
  have stores: "\<forall>p. poll_tick (Resolved p) st =
         st\<lparr>panel_progress := Some p,
            isSyncing := isSyncing st
               \<and> \<not> (status p = Completed \<or> (\<exists>m. status p = Error m))\<rparr>"
    by (simp add: poll_tick_Resolved terminal_answer_iff)
  have failed: "\<forall>e. poll_tick (Rejected e) st = st"
    by (simp add: poll_tick_Rejected)
  have fires: "poll_step TimerFires ps =
        (if isSyncing (panel ps) then ps\<lparr>in_flight := in_flight ps + 1\<rparr> else ps)"
    by (simp add: poll_step_def pollInterval_def)
  have settles: "\<forall>a. poll_step (Settles a) ps =
        (if 0 < in_flight ps
         then ps\<lparr>panel := poll_tick a (panel ps), in_flight := in_flight ps - 1\<rparr> else ps)"
    by (simp add: poll_step_def)
  have run: "poll evs ps = fold poll_step evs ps"
    by (rule poll_fold)
  have each: "\<forall>p. 0 < in_flight (poll evs ps) \<longrightarrow>
        panel_progress (panel (poll (evs @ [Settles (Resolved p)]) ps)) = Some p"
    by (simp add: poll_append poll_step_def poll_tick_Resolved)
  have stop: "\<forall>a. isSyncing (panel ps) \<and> 0 < in_flight ps \<longrightarrow>
        (pollInterval (panel (poll_step (Settles a) ps)) = None \<longleftrightarrow>
           (\<exists>p. a = Resolved p \<and> (status p = Completed \<or> (\<exists>m. status p = Error m))))"
    by (simp add: poll_step_def pollInterval_def poll_tick_isSyncing terminal_answer_iff)
  have goes_on: "isSyncing (panel ps)
        \<and> (\<forall>p. Settles (Resolved p) \<in> set evs \<longrightarrow>
              \<not> (status p = Completed \<or> (\<exists>m. status p = Error m))) \<longrightarrow>
        pollInterval (panel (poll evs ps)) = Some 500"
  proof
    assume h: "isSyncing (panel ps)
        \<and> (\<forall>p. Settles (Resolved p) \<in> set evs \<longrightarrow>
              \<not> (status p = Completed \<or> (\<exists>m. status p = Error m)))"
    then have "\<forall>a. Settles a \<in> set evs \<longrightarrow> \<not> terminal_answer a"
      by (auto simp add: terminal_answer_iff)
    with h have "isSyncing (panel (poll evs ps))"
      by (simp add: poll_goes_on)
    then show "pollInterval (panel (poll evs ps)) = Some 500"
      by (simp add: pollInterval_def)
  qed
  have stays: "pollInterval (panel ps) = None \<longrightarrow>
        pollInterval (panel (poll evs ps)) = None
        \<and> in_flight (poll evs ps) \<le> in_flight ps"
    using poll_stays_stopped [of ps evs] by (simp add: pollInterval_def split: if_splits)
  from period stores failed fires settles run each stop goes_on stays show ?thesis
    by (intro conjI)
qed

text \<open>
  Three calls under way; the second answer is the completed snapshot and clears the
  interval; the timer no longer starts a call; the third answer is still stored.
\<close>

theorem polling_until_terminal_witness:
  "pollInterval (panel (poll
      [TimerFires, TimerFires, TimerFires,
       Settles (Resolved \<lparr>status = Syncing, direction = Some LocalToCloud, total_files = 3,
          completed_files = 1, total_bytes = 300, transferred_bytes = 100,
          current_file = Some ''b.txt'', bytes_per_second = 50, eta_seconds = Some 4\<rparr>),
       Settles (Resolved \<lparr>status = Completed, direction = Some LocalToCloud, total_files = 3,
          completed_files = 3, total_bytes = 300, transferred_bytes = 300,
          current_file = None, bytes_per_second = 50, eta_seconds = None\<rparr>),
       TimerFires]
      \<lparr>panel = \<lparr>mode = Some Upload, panel_progress = None, isSyncing = True,
                 credentialsStatus = None\<rparr>, in_flight = 0\<rparr>)) = None
   \<and> in_flight (poll
      [TimerFires, TimerFires, TimerFires,
       Settles (Resolved \<lparr>status = Syncing, direction = Some LocalToCloud, total_files = 3,
          completed_files = 1, total_bytes = 300, transferred_bytes = 100,
          current_file = Some ''b.txt'', bytes_per_second = 50, eta_seconds = Some 4\<rparr>),
       Settles (Resolved \<lparr>status = Completed, direction = Some LocalToCloud, total_files = 3,
          completed_files = 3, total_bytes = 300, transferred_bytes = 300,
          current_file = None, bytes_per_second = 50, eta_seconds = None\<rparr>),
       TimerFires]
      \<lparr>panel = \<lparr>mode = Some Upload, panel_progress = None, isSyncing = True,
                 credentialsStatus = None\<rparr>, in_flight = 0\<rparr>) = 1
   \<and> panel_progress (panel (poll
      ([TimerFires, TimerFires, TimerFires,
       Settles (Resolved \<lparr>status = Syncing, direction = Some LocalToCloud, total_files = 3,
          completed_files = 1, total_bytes = 300, transferred_bytes = 100,
          current_file = Some ''b.txt'', bytes_per_second = 50, eta_seconds = Some 4\<rparr>),
       Settles (Resolved \<lparr>status = Completed, direction = Some LocalToCloud, total_files = 3,
          completed_files = 3, total_bytes = 300, transferred_bytes = 300,
          current_file = None, bytes_per_second = 50, eta_seconds = None\<rparr>),
       TimerFires]
       @ [Settles (Resolved \<lparr>status = Syncing, direction = Some LocalToCloud, total_files = 3,
          completed_files = 2, total_bytes = 300, transferred_bytes = 200,
          current_file = Some ''c.txt'', bytes_per_second = 50, eta_seconds = Some 2\<rparr>)])
      \<lparr>panel = \<lparr>mode = Some Upload, panel_progress = None, isSyncing = True,
                 credentialsStatus = None\<rparr>, in_flight = 0\<rparr>))
     = Some \<lparr>status = Syncing, direction = Some LocalToCloud, total_files = 3,
          completed_files = 2, total_bytes = 300, transferred_bytes = 200,
          current_file = Some ''c.txt'', bytes_per_second = 50, eta_seconds = Some 2\<rparr>"
proof -
  let ?p1 = "\<lparr>status = Syncing, direction = Some LocalToCloud, total_files = 3,
      completed_files = 1, total_bytes = 300, transferred_bytes = 100,
      current_file = Some ''b.txt'', bytes_per_second = 50, eta_seconds = Some 4\<rparr>"
  let ?p2 = "\<lparr>status = Completed, direction = Some LocalToCloud, total_files = 3,
      completed_files = 3, total_bytes = 300, transferred_bytes = 300,
      current_file = None, bytes_per_second = 50, eta_seconds = None\<rparr>"
  let ?p3 = "\<lparr>status = Syncing, direction = Some LocalToCloud, total_files = 3,
      completed_files = 2, total_bytes = 300, transferred_bytes = 200,
      current_file = Some ''c.txt'', bytes_per_second = 50, eta_seconds = Some 2\<rparr>"
  let ?st = "\<lparr>mode = Some Upload, panel_progress = None, isSyncing = True,
      credentialsStatus = None\<rparr>"
  let ?ps = "\<lparr>panel = ?st, in_flight = 0\<rparr>"
  let ?evs = "[TimerFires, TimerFires, TimerFires, Settles (Resolved ?p1),
      Settles (Resolved ?p2), TimerFires]"
  have after: "poll ?evs ?ps =
      \<lparr>panel = ?st\<lparr>panel_progress := Some ?p2, isSyncing := False\<rparr>, in_flight = 1\<rparr>"
    by (simp add: poll_step_def pollInterval_def poll_tick_def Let_def)
  then have under_way: "0 < in_flight (poll ?evs ?ps)"
    by simp
  note all = polling_until_terminal [of ?st ?ps ?evs]
  from all have "\<forall>p. 0 < in_flight (poll ?evs ?ps) \<longrightarrow>
        panel_progress (panel (poll (?evs @ [Settles (Resolved p)]) ?ps)) = Some p"
    by (elim conjE)
  with under_way have "panel_progress (panel (poll (?evs @ [Settles (Resolved ?p3)]) ?ps))
      = Some ?p3"
    by blast
  moreover have "pollInterval (panel (poll ?evs ?ps)) = None"
    unfolding after by (simp add: pollInterval_def)
  moreover have "in_flight (poll ?evs ?ps) = 1"
    unfolding after by simp
  ultimately show ?thesis
    by (intro conjI)
qed

lemma deliver_all_keeps:
  "cancel_requested e \<Longrightarrow>
     cancel_requested (deliver_all ss e) \<and> snapshot (deliver_all ss e) = snapshot e"
proof (induction ss arbitrary: e)
  case Nil
  then show ?case by simp
next
  case (Cons s ss)
  have "cancel_requested (deliver s e) \<and> snapshot (deliver s e) = snapshot e"
    using Cons.prems by (cases s) (simp_all add: pause_sync_def resume_sync_def cancel_sync_def)
  with Cons.IH [of "deliver s e"] show ?case by simp
qed

lemma worker_step_inactive:
  "\<not> is_active (status (snapshot x)) \<Longrightarrow> worker_step w x = x"
  by (simp add: worker_step_def)

lemma handleCancel_rejected:
  "backend CancelSync = Rejected e \<Longrightarrow> handleCancel backend st = (st, [CancelSync])"
  by (simp add: handleCancel_def)

text \<open>
  C6. When \<open>cancel_sync\<close> is invoked during an active sync and the invocation returns,
  the handler stops the polling and clears the panel's snapshot at once. In the backend
  the signal is one-way: no pause or resume delivered after it lowers it. The worker's
  next look at the signals aborts the run, the status read by the next
  \<open>get_sync_progress\<close> is \<open>Idle\<close>, and the worker does no further work.
\<close>

theorem cancel_resets_panel:
  assumes "backend CancelSync = Resolved ()"
    and "is_active (status (snapshot e))"
  shows "handleCancel backend st =
            (st\<lparr>isSyncing := False, panel_progress := None\<rparr>, [CancelSync])
         \<and> pollInterval (fst (handleCancel backend st)) = None
         \<and> panel_progress (fst (handleCancel backend st)) = None
         \<and> cancel_requested (deliver_all later (cancel_sync e))
         \<and> status (get_sync_progress (worker_step w (deliver_all later (cancel_sync e)))) = Idle
         \<and> worker_step w' (worker_step w (deliver_all later (cancel_sync e))) =
             worker_step w (deliver_all later (cancel_sync e))"
proof -
  let ?e = "deliver_all later (cancel_sync e)"
  have ui: "handleCancel backend st =
            (st\<lparr>isSyncing := False, panel_progress := None\<rparr>, [CancelSync])"
    using assms(1) by (simp add: handleCancel_def)
  have raised: "cancel_requested ?e" and same: "snapshot ?e = snapshot e"
    using deliver_all_keeps [of "cancel_sync e" later] by (simp_all add: cancel_sync_def)
  have aborted: "worker_step w ?e = set_status Idle ?e"
    using assms(2) raised same by (simp add: worker_step_def)
  have idle: "status (get_sync_progress (worker_step w ?e)) = Idle"
    by (simp add: aborted get_sync_progress_def set_status_def)
  have rest: "worker_step w' (worker_step w ?e) = worker_step w ?e"
    unfolding aborted by (rule worker_step_inactive) (simp add: set_status_def is_active_def)
  from ui raised idle rest show ?thesis
    by (simp add: pollInterval_def)
qed

text \<open>A cancel during an upload, followed by a pause and a resume before the worker looks.\<close>

theorem cancel_resets_panel_witness:
  "handleCancel (\<lambda>c. Resolved ())
      \<lparr>mode = Some Upload,
       panel_progress = Some \<lparr>status = Syncing, direction = Some LocalToCloud, total_files = 3,
         completed_files = 1, total_bytes = 300, transferred_bytes = 100,
         current_file = Some ''b.txt'', bytes_per_second = 50, eta_seconds = Some 4\<rparr>,
       isSyncing = True, credentialsStatus = None\<rparr>
    = (\<lparr>mode = Some Upload, panel_progress = None, isSyncing = False,
        credentialsStatus = None\<rparr>, [CancelSync])
   \<and> status (get_sync_progress (worker_step (Chunk 10) (deliver_all [Pause, Resume]
        (cancel_sync
          \<lparr>snapshot = \<lparr>status = Syncing, direction = Some LocalToCloud, total_files = 3,
             completed_files = 1, total_bytes = 300, transferred_bytes = 100,
             current_file = Some ''b.txt'', bytes_per_second = 50, eta_seconds = Some 4\<rparr>,
           cancel_requested = False, pause_requested = False\<rparr>)))) = Idle"
proof -
  let ?p = "\<lparr>status = Syncing, direction = Some LocalToCloud, total_files = 3,
      completed_files = 1, total_bytes = 300, transferred_bytes = 100,
      current_file = Some ''b.txt'', bytes_per_second = 50, eta_seconds = Some 4\<rparr>"
  let ?e = "\<lparr>snapshot = ?p, cancel_requested = False, pause_requested = False\<rparr>"
  let ?st = "\<lparr>mode = Some Upload, panel_progress = Some ?p, isSyncing = True,
      credentialsStatus = None\<rparr>"
  let ?backend = "\<lambda>c::command. Resolved ()"
  have resolves: "?backend CancelSync = Resolved ()"
    by simp
  have active: "is_active (status (snapshot ?e))"
    by (simp add: is_active_def)
  from cancel_resets_panel [OF resolves active, of ?st "[Pause, Resume]" "Chunk 10" FileDone]
  show ?thesis by simp
qed


section \<open>Properties of the backend model\<close>

lemma expiry_warning_cases:
  "expiry_warning d =
     (if d < 0 then Some ''Credentials have expired''
      else if d \<le> 30 then Some (''Credentials expire in '' @ string_of_nat (nat d) @ '' days'')
      else None)"
  by (simp add: expiry_warning_def)

lemma days_negative_iff: "(expires - now) div 86400 < 0 \<longleftrightarrow> expires < (now::int)"
  using pos_imp_zdiv_neg_iff [of 86400 "expires - now"] by simp

text \<open>
  C4. For every time \<open>now\<close>, \<open>check_expiry\<close> returns as \<open>days_remaining\<close> the floor of
  (expiry date - now) / 1 day. The status is invalid exactly when that number is
  negative, which is exactly when \<open>now\<close> is past the expiry date: so validity, once
  lost, is lost at every later time, and held at every earlier one. A warning is
  present whenever at most 30 days remain, and the one for an expired credential is
  not the text of any other. On its mode-selection screen (no mode chosen, and no
  sync shown in progress) the panel shows the warning in red when the status is
  invalid and in amber when at most 30 days remain; it shows no banner otherwise, and
  none on its other screens.
\<close>

theorem check_expiry_classification:
  "days_remaining (check_expiry expires iso_text now)
      = \<lfloor>real_of_int (expires - now) / 86400\<rfloor>
   \<and> (cred_valid (check_expiry expires iso_text now) \<longleftrightarrow>
        \<not> days_remaining (check_expiry expires iso_text now) < 0)
   \<and> (days_remaining (check_expiry expires iso_text now) \<le> 30 \<longrightarrow>
        warning (check_expiry expires iso_text now) \<noteq> None)
   \<and> (days_remaining (check_expiry expires iso_text now) < 0 \<longrightarrow>
        warning (check_expiry expires iso_text now) = Some ''Credentials have expired'')
   \<and> (\<not> days_remaining (check_expiry expires iso_text now) < 0 \<longrightarrow>
        warning (check_expiry expires iso_text now) \<noteq> Some ''Credentials have expired'')
   \<and> (cred_valid (check_expiry expires iso_text now) \<longleftrightarrow> now \<le> expires)
   \<and> (\<forall>later. now \<le> later \<and> \<not> cred_valid (check_expiry expires iso_text now) \<longrightarrow>
        \<not> cred_valid (check_expiry expires iso_text later))
   \<and> (\<forall>earlier. earlier \<le> now \<and> cred_valid (check_expiry expires iso_text now) \<longrightarrow>
        cred_valid (check_expiry expires iso_text earlier))
   \<and> credentialsBanner (st\<lparr>credentialsStatus := Some (check_expiry expires iso_text now)\<rparr>)
      = (if panelView st \<noteq> ModeSelection then None
         else if days_remaining (check_expiry expires iso_text now) < 0
         then Some (Red, ''Credentials have expired'')
         else if days_remaining (check_expiry expires iso_text now) \<le> 30
         then Some (Amber, the (warning (check_expiry expires iso_text now)))
         else None)
   \<and> (panelView st = ModeSelection \<longleftrightarrow>
        mode st = None \<and> \<not> (panel_progress st \<noteq> None \<and> isSyncing st))"
proof -
  let ?r = "check_expiry expires iso_text now"
  have days: "days_remaining ?r = (expires - now) div 86400"
    by (simp add: check_expiry_def Let_def)
  have floor: "days_remaining ?r = \<lfloor>real_of_int (expires - now) / 86400\<rfloor>"
    unfolding days using floor_divide_of_int_eq [of "expires - now" 86400, where ?'a = real]
    by simp
  have valid_days: "cred_valid ?r \<longleftrightarrow> \<not> days_remaining ?r < 0"
    by (simp add: check_expiry_def Let_def)
  have warn: "warning ?r = expiry_warning (days_remaining ?r)"
    by (simp add: check_expiry_def Let_def)
  have soon: "days_remaining ?r \<le> 30 \<longrightarrow> warning ?r \<noteq> None"
    unfolding warn by (simp add: expiry_warning_cases)
  have expired: "days_remaining ?r < 0 \<longrightarrow> warning ?r = Some ''Credentials have expired''"
    unfolding warn by (simp add: expiry_warning_cases)
  have other: "\<not> days_remaining ?r < 0 \<longrightarrow> warning ?r \<noteq> Some ''Credentials have expired''"
    unfolding warn by (simp add: expiry_warning_cases)
  have threshold: "cred_valid (check_expiry expires iso_text t) \<longleftrightarrow> t \<le> expires" for t
    using days_negative_iff [of expires t] by (auto simp add: check_expiry_def Let_def)
  have once: "\<forall>later. now \<le> later \<and> \<not> cred_valid ?r \<longrightarrow>
        \<not> cred_valid (check_expiry expires iso_text later)"
    unfolding threshold by simp
  have before: "\<forall>earlier. earlier \<le> now \<and> cred_valid ?r \<longrightarrow>
        cred_valid (check_expiry expires iso_text earlier)"
    unfolding threshold by simp
  have view: "panelView (st\<lparr>credentialsStatus := Some ?r\<rparr>) = panelView st"
    by (simp add: panelView_def)
  have banner: "credentialsBanner (st\<lparr>credentialsStatus := Some ?r\<rparr>)
      = (if panelView st \<noteq> ModeSelection then None
         else if days_remaining ?r < 0 then Some (Red, ''Credentials have expired'')
         else if days_remaining ?r \<le> 30 then Some (Amber, the (warning ?r))
         else None)"
    unfolding credentialsBanner_def view
    by (simp add: warn expiry_warning_cases truthy_def valid_days del: string_of_nat.simps)
  have screen: "panelView st = ModeSelection \<longleftrightarrow>
        mode st = None \<and> \<not> (panel_progress st \<noteq> None \<and> isSyncing st)"
    by (auto simp add: panelView_def split: option.splits SyncMode.splits)
  from floor valid_days soon expired other threshold [of now] once before banner screen
  show ?thesis
    by (intro conjI)
qed

text \<open>
  One second past the expiry date: -1 day remains, the status stays invalid, and the
  banner is red on the mode-selection screen and absent on the upload screen.
\<close>

theorem check_expiry_classification_witness:
  "days_remaining (check_expiry 1795824000 ''2026-11-28'' 1795824001) = - 1
   \<and> \<not> cred_valid (check_expiry 1795824000 ''2026-11-28'' 1795824001)
   \<and> warning (check_expiry 1795824000 ''2026-11-28'' 1795824001)
        = Some ''Credentials have expired''
   \<and> \<not> cred_valid (check_expiry 1795824000 ''2026-11-28'' 1800000000)
   \<and> credentialsBanner
        \<lparr>mode = None, panel_progress = None, isSyncing = False,
         credentialsStatus = Some (check_expiry 1795824000 ''2026-11-28'' 1795824001)\<rparr>
      = Some (Red, ''Credentials have expired'')
   \<and> credentialsBanner
        \<lparr>mode = Some Upload, panel_progress = None, isSyncing = False,
         credentialsStatus = Some (check_expiry 1795824000 ''2026-11-28'' 1795824001)\<rparr>
      = None"
proof -
  let ?r = "check_expiry 1795824000 ''2026-11-28'' 1795824001"
  let ?home = "\<lparr>mode = None, panel_progress = None, isSyncing = False,
      credentialsStatus = None\<rparr>"
  let ?upload = "\<lparr>mode = Some Upload, panel_progress = None, isSyncing = False,
      credentialsStatus = None\<rparr>"
  note all = check_expiry_classification [of 1795824000 "''2026-11-28''" 1795824001 ?home]
  note other = check_expiry_classification [of 1795824000 "''2026-11-28''" 1795824001 ?upload]
  have days: "days_remaining ?r = - 1"
    by (simp add: check_expiry_def Let_def)
  from all have "cred_valid ?r \<longleftrightarrow> \<not> days_remaining ?r < 0"
    by (elim conjE)
  with days have invalid: "\<not> cred_valid ?r"
    by simp
  from all have "days_remaining ?r < 0 \<longrightarrow> warning ?r = Some ''Credentials have expired''"
    by (elim conjE)
  with days have msg: "warning ?r = Some ''Credentials have expired''"
    by simp
  from all have "\<forall>later. 1795824001 \<le> later \<and> \<not> cred_valid ?r \<longrightarrow>
        \<not> cred_valid (check_expiry 1795824000 ''2026-11-28'' later)"
    by (elim conjE)
  with invalid have later: "\<not> cred_valid (check_expiry 1795824000 ''2026-11-28'' 1800000000)"
    by simp
  from all have "credentialsBanner (?home\<lparr>credentialsStatus := Some ?r\<rparr>)
      = (if panelView ?home \<noteq> ModeSelection then None
         else if days_remaining ?r < 0 then Some (Red, ''Credentials have expired'')
         else if days_remaining ?r \<le> 30 then Some (Amber, the (warning ?r))
         else None)"
    by (elim conjE)
  with days have red: "credentialsBanner (?home\<lparr>credentialsStatus := Some ?r\<rparr>)
      = Some (Red, ''Credentials have expired'')"
    by (simp add: panelView_def)
  from other have "credentialsBanner (?upload\<lparr>credentialsStatus := Some ?r\<rparr>)
      = (if panelView ?upload \<noteq> ModeSelection then None
         else if days_remaining ?r < 0 then Some (Red, ''Credentials have expired'')
         else if days_remaining ?r \<le> 30 then Some (Amber, the (warning ?r))
         else None)"
    by (elim conjE)
  then have hidden: "credentialsBanner (?upload\<lparr>credentialsStatus := Some ?r\<rparr>) = None"
    by (simp add: panelView_def)
  from days invalid msg later red hidden show ?thesis
    by simp
qed

text \<open>
  C1. For every uid: when the blacklist or the whitelist cannot be fetched,
  \<open>authorize\<close> denies with the reason \<open>policy unavailable\<close>; when both are fetched, a
  uid on the blacklist is denied whatever the whitelist holds; a uid not on the
  blacklist is allowed when the whitelist is empty or holds it, and denied otherwise.
\<close>

theorem authorize_policy:
  "(fetch ''_admin/blacklist.json'' = None \<or> fetch ''_admin/whitelist.json'' = None \<longrightarrow>
      authorize fetch u = Denied ''policy unavailable'')
   \<and> (\<forall>blacklist whitelist.
        fetch ''_admin/blacklist.json'' = Some blacklist
        \<and> fetch ''_admin/whitelist.json'' = Some whitelist \<longrightarrow>
          (u \<in> set blacklist \<longrightarrow> is_denied (authorize fetch u))
        \<and> (u \<notin> set blacklist \<and> (whitelist = [] \<or> u \<in> set whitelist) \<longrightarrow>
             authorize fetch u = Allowed)
        \<and> (u \<notin> set blacklist \<and> whitelist \<noteq> [] \<and> u \<notin> set whitelist \<longrightarrow>
             is_denied (authorize fetch u)))"
proof -
  have closed: "fetch ''_admin/blacklist.json'' = None \<or> fetch ''_admin/whitelist.json'' = None
      \<longrightarrow> authorize fetch u = Denied ''policy unavailable''"
    by (auto simp add: authorize_def split: option.split)
  have fetched: "\<forall>blacklist whitelist.
        fetch ''_admin/blacklist.json'' = Some blacklist
        \<and> fetch ''_admin/whitelist.json'' = Some whitelist \<longrightarrow>
          (u \<in> set blacklist \<longrightarrow> is_denied (authorize fetch u))
        \<and> (u \<notin> set blacklist \<and> (whitelist = [] \<or> u \<in> set whitelist) \<longrightarrow>
             authorize fetch u = Allowed)
        \<and> (u \<notin> set blacklist \<and> whitelist \<noteq> [] \<and> u \<notin> set whitelist \<longrightarrow>
             is_denied (authorize fetch u))"
    by (simp add: authorize_def)
  from closed fetched show ?thesis
    by (intro conjI)
qed

text \<open>A uid on both lists is denied; with the blacklist unreachable, so is any uid.\<close>

theorem authorize_policy_witness:
  "is_denied (authorize
      (\<lambda>k. if k = ''_admin/blacklist.json'' then Some [''u1''] else Some [''u1'', ''u2''])
      ''u1'')
   \<and> authorize (\<lambda>k. if k = ''_admin/blacklist.json'' then None else Some []) ''u2''
      = Denied ''policy unavailable''"
proof -
  let ?fetch = "\<lambda>k. if k = ''_admin/blacklist.json'' then Some [''u1''] else Some [''u1'', ''u2'']"
  let ?down = "\<lambda>k. if k = ''_admin/blacklist.json'' then None else Some ([]::string list)"
  have lists: "?fetch ''_admin/blacklist.json'' = Some [''u1'']
      \<and> ?fetch ''_admin/whitelist.json'' = Some [''u1'', ''u2'']"
    by simp
  note revoked = authorize_policy [of ?fetch "''u1''", THEN conjunct2, rule_format, OF lists,
      THEN conjunct1, rule_format]
  have denied: "is_denied (authorize ?fetch ''u1'')"
    by (rule revoked) simp
  have "?down ''_admin/blacklist.json'' = None \<or> ?down ''_admin/whitelist.json'' = None"
    by simp
  from authorize_policy [of ?down "''u2''", THEN conjunct1, rule_format, OF this] denied
  show ?thesis by (intro conjI)
qed

text \<open>
  C2. For every payload \<open>P\<close>, every 32-byte master key and every nonce \<open>encrypt\<close> may
  draw, decrypting the key string that \<open>encrypt\<close> returns gives \<open>P\<close> back, provided the
  three libraries invert themselves on the values \<open>encrypt\<close> hands them: decoding the
  encoded bytes, opening the sealed text under the same key and nonce, and parsing the
  serialised payload.
\<close>

theorem decrypt_encrypt:
  assumes "length mk = 32" and "length nonce = nonce_len"
    and "decode L (encode L (nonce @ aead_seal L mk nonce (to_json L P)))
           = Some (nonce @ aead_seal L mk nonce (to_json L P))"
    and "aead_open L mk nonce (aead_seal L mk nonce (to_json L P)) = Some (to_json L P)"
    and "from_json L (to_json L P) = Some P"
  shows "decrypt L mk (encrypt L mk nonce P) = Inr P"
proof -
  let ?sealed = "aead_seal L mk nonce (to_json L P)"
  have tagged: "prefix key_prefix (encrypt L mk nonce P)"
    by (simp add: encrypt_def)
  have stripped: "drop (length key_prefix) (encrypt L mk nonce P) = encode L (nonce @ ?sealed)"
    by (simp add: encrypt_def)
  have long: "\<not> length (nonce @ ?sealed) < nonce_len"
    using assms(2) by simp
  have split: "take nonce_len (nonce @ ?sealed) = nonce"
      "drop nonce_len (nonce @ ?sealed) = ?sealed"
    using assms(2) by simp_all
  show ?thesis
    using tagged long split assms(3-5) by (simp add: decrypt_def stripped)
qed

text \<open>A toy cipher, serialiser and encoding that meet the three conditions for one payload.\<close>

theorem decrypt_encrypt_witness:
  "decrypt
      \<lparr>to_json = (\<lambda>P. name P), from_json = (\<lambda>b. Some \<lparr>uid = ''u_1'', name = b, created = 0\<rparr>),
       aead_seal = (\<lambda>k n p. rev p @ k), aead_open = (\<lambda>k n c. Some (rev (take (length c - 32) c))),
       encode = (\<lambda>b. b), decode = Some\<rparr>
      (replicate 32 CHR ''k'')
      (encrypt
         \<lparr>to_json = (\<lambda>P. name P), from_json = (\<lambda>b. Some \<lparr>uid = ''u_1'', name = b, created = 0\<rparr>),
          aead_seal = (\<lambda>k n p. rev p @ k),
          aead_open = (\<lambda>k n c. Some (rev (take (length c - 32) c))),
          encode = (\<lambda>b. b), decode = Some\<rparr>
         (replicate 32 CHR ''k'') (replicate 12 CHR ''n'')
         \<lparr>uid = ''u_1'', name = ''Ann'', created = 0\<rparr>)
    = Inr \<lparr>uid = ''u_1'', name = ''Ann'', created = 0\<rparr>"
proof -
  let ?L = "\<lparr>to_json = (\<lambda>P. name P),
      from_json = (\<lambda>b. Some \<lparr>uid = ''u_1'', name = b, created = 0\<rparr>),
      aead_seal = (\<lambda>k n p. rev p @ k),
      aead_open = (\<lambda>k n c. Some (rev (take (length c - 32) c))),
      encode = (\<lambda>b. b), decode = Some\<rparr>"
  let ?mk = "replicate 32 CHR ''k''"
  let ?nonce = "replicate 12 CHR ''n''"
  let ?P = "\<lparr>uid = ''u_1'', name = ''Ann'', created = 0\<rparr>"
  have key_len: "length ?mk = 32" by simp
  have nonce_ok: "length ?nonce = nonce_len" by (simp add: nonce_len_def)
  have enc: "decode ?L (encode ?L (?nonce @ aead_seal ?L ?mk ?nonce (to_json ?L ?P)))
           = Some (?nonce @ aead_seal ?L ?mk ?nonce (to_json ?L ?P))"
    by simp
  have seal: "aead_open ?L ?mk ?nonce (aead_seal ?L ?mk ?nonce (to_json ?L ?P))
      = Some (to_json ?L ?P)"
    by simp
  have json: "from_json ?L (to_json ?L ?P) = Some ?P"
    by simp
  show ?thesis
    by (rule decrypt_encrypt [OF key_len nonce_ok enc seal json])
qed

end
